theory Spec2Isabelle
  imports Complex_Main "HOL-Library.Word" "HOL-Library.Sublist"
begin

section \<open>Audio visualizer: the per-frame mapping and the session handlers\<close>

text \<open>
  The repository holds three React components, each called \<open>App\<close>:
  \<^item> the file-upload 3D visualizer (\<open>AudioBars\<close> with a fixed sampling stride),
  \<^item> the file-upload 3D visualizer with a selectable Z formula (\<open>AudioBars\<close> with a
    proportional sampling stride and \<open>zFormula\<close>),
  \<^item> the microphone 2D visualizer (\<open>startVisualizer\<close>, \<open>stopVisualizer\<close>,
    \<open>drawVisualizer\<close>).

  JavaScript numbers are modelled as \<open>real\<close>: every expression below is the source's
  expression read in exact arithmetic, and the rounding of IEEE doubles is not part of
  the model. A \<open>Uint8Array\<close> is a list of \<open>8 word\<close>. A read outside the array gives
  \<open>undefined\<close> in JavaScript and \<open>undefined / 255\<close> is \<open>NaN\<close>, which every later
  operation of the loop body propagates; the model writes that outcome as \<open>None\<close>.
\<close>

subsection \<open>AudioBars: the body of the per-frame loop\<close>

definition barCount :: nat where
  "barCount = 64"

text \<open>Fixed-stride variant: \<^verbatim>\<open>Math.floor(i * 2)\<close>.\<close>

definition freqIndex_fixed :: "nat \<Rightarrow> int" where
  "freqIndex_fixed i = \<lfloor>real i * 2\<rfloor>"

text \<open>Formula variant: \<^verbatim>\<open>Math.floor(i * (dataArray.length / barCount))\<close>.\<close>

definition freqIndex :: "nat \<Rightarrow> nat \<Rightarrow> int" where
  "freqIndex len i = \<lfloor>real i * (real len / real barCount)\<rfloor>"

text \<open>\<^verbatim>\<open>dataArray[k] / 255\<close>; \<open>None\<close> is the \<open>NaN\<close> of a read outside the array.\<close>

definition readSample :: "8 word list \<Rightarrow> int \<Rightarrow> real option" where
  "readSample dataArray k =
     (if 0 \<le> k \<and> nat k < length dataArray
      then Some (real (unat (dataArray ! nat k)) / 255)
      else None)"

definition sample_fixed :: "8 word list \<Rightarrow> nat \<Rightarrow> real option" where
  "sample_fixed dataArray i = readSample dataArray (freqIndex_fixed i)"

definition sample_formula :: "8 word list \<Rightarrow> nat \<Rightarrow> real option" where
  "sample_formula dataArray i = readSample dataArray (freqIndex (length dataArray) i)"

text \<open>
  Both variants: \<^verbatim>\<open>const bassBoost = i < 16 ? value * 4 : value * 1.5;\<close> and
  \<^verbatim>\<open>const height = Math.max(0.3, bassBoost * 12);\<close>.
\<close>

definition bassBoost :: "nat \<Rightarrow> real \<Rightarrow> real" where
  "bassBoost i val = (if i < 16 then val * 4 else val * 1.5)"

definition height :: "nat \<Rightarrow> real \<Rightarrow> real" where
  "height i val = max 0.3 (bassBoost i val * 12)"

text \<open>\<^verbatim>\<open>(i - barCount / 2) * 0.9\<close>.\<close>

definition xPos :: "nat \<Rightarrow> real" where
  "xPos i = (real i - real barCount / 2) * 0.9"

text \<open>
  The \<^verbatim>\<open>switch (zFormula)\<close> of the formula variant. The selector is a string, and any
  string other than the five names falls to \<^verbatim>\<open>default\<close>.
\<close>

definition zOffset :: "string \<Rightarrow> nat \<Rightarrow> real \<Rightarrow> real \<Rightarrow> real \<Rightarrow> real" where
  "zOffset zFormula i x t val =
     (if zFormula = ''none'' then 0
      else if zFormula = ''sine'' then sin (x * 0.2 + t) * (val * 5)
      else if zFormula = ''pulse'' then sin (t * 3) * (val * 8)
      else if zFormula = ''wave'' then sin (real i * 0.2 + t * 2) * (val * 6 + 2)
      else if zFormula = ''spiral'' then cos (x * 0.3 + t) * (val * 6) + sin t * 2
      else 0)"

text \<open>
  What the loop body hands to \<^verbatim>\<open>setMatrixAt(i, dummy.matrix)\<close>: the position and the
  scale of the dummy object.
\<close>

record object3d =
  position :: "real \<times> real \<times> real"
  scale :: "real \<times> real \<times> real"

definition bar_fixed :: "8 word list \<Rightarrow> nat \<Rightarrow> object3d option" where
  "bar_fixed dataArray i =
     (case sample_fixed dataArray i of
        None \<Rightarrow> None
      | Some val \<Rightarrow>
          Some \<lparr>position = (xPos i, height i val / 2, 0),
                scale = (0.8, height i val, 0.8)\<rparr>)"

text \<open>
  The formula variant reads the clock inside the loop body
  (\<^verbatim>\<open>const t = performance.now() * 0.001\<close>); \<open>now\<close> is that reading.
\<close>

definition bar_formula :: "string \<Rightarrow> 8 word list \<Rightarrow> real \<Rightarrow> nat \<Rightarrow> object3d option" where
  "bar_formula zFormula dataArray now i =
     (case sample_formula dataArray i of
        None \<Rightarrow> None
      | Some val \<Rightarrow>
          Some \<lparr>position = (xPos i, height i val / 2,
                            zOffset zFormula i (xPos i) (now * 0.001) val),
                scale = (0.8, height i val, 0.8)\<rparr>)"

subsection \<open>The 2D variant: colour of bar \<open>i\<close>\<close>

text \<open>\<^verbatim>\<open>const hue = i / bufferLength * 60 + 180;\<close>\<close>

definition hue :: "nat \<Rightarrow> nat \<Rightarrow> real" where
  "hue bufferLength i = real i / real bufferLength * 60 + 180"

subsection \<open>Session state and browser calls\<close>

text \<open>
  The handlers act on React state (\<^verbatim>\<open>useState\<close>) and refs (\<^verbatim>\<open>useRef\<close>) and call into
  the browser. A handler is a function from the component's state to the state after it
  has run; the browser calls it issues are appended to \<open>calls\<close>, oldest first. What
  the browser answers is the handler's first argument: whether the two awaited promises
  (\<^verbatim>\<open>getUserMedia\<close>, \<^verbatim>\<open>play\<close>) resolve, and the handles it gives out. The
  synchronous Web Audio calls and the canvas drawing are taken to return normally.
\<close>

datatype call =
    GetUserMedia
  | NewAudioContext nat
  | CloseContext nat
  | RequestAnimationFrame nat
  | CancelAnimationFrame nat
  | Play
  | Pause
  | ConsoleError

record browser =
  micGranted :: bool
  newContext :: nat
  nextFrame :: nat
  playOk :: bool

text \<open>
  An \<open>AnalyserNode\<close>, with the two attributes the handlers set. \<open>createAnalyser\<close>
  is the node as the Web Audio API creates it, and \<open>frequencyBinCount\<close> is the API's
  read-only attribute: half the FFT size.
\<close>

record analyser =
  fftSize :: nat
  smoothingTimeConstant :: real

definition createAnalyser :: analyser where
  "createAnalyser = \<lparr>fftSize = 2048, smoothingTimeConstant = 0.8\<rparr>"

definition frequencyBinCount :: "analyser \<Rightarrow> nat" where
  "frequencyBinCount a = fftSize a div 2"

text \<open>State shared by the three components: \<open>error\<close> and the two audio refs.\<close>

record session =
  error :: "string option"
  audioContextRef :: "nat option"
  analyserRef :: "analyser option"
  calls :: "call list"

subsection \<open>The microphone component\<close>

record mic_app = session +
  isVisualizing :: bool
  animationFrameRef :: "nat option"

text \<open>
  \<open>drawVisualizer\<close> runs \<open>draw\<close> once: it requests the next frame, stores the id and
  paints.
\<close>

definition drawVisualizer :: "browser \<Rightarrow> mic_app \<Rightarrow> mic_app" where
  "drawVisualizer b st =
     st\<lparr>animationFrameRef := Some (nextFrame b),
        calls := calls st @ [RequestAnimationFrame (nextFrame b)]\<rparr>"

text \<open>The \<^verbatim>\<open>try\<close> block runs to its end or stops at the rejected \<^verbatim>\<open>await\<close>.\<close>

definition startVisualizer :: "browser \<Rightarrow> mic_app \<Rightarrow> mic_app" where
  "startVisualizer b st =
     (if micGranted b then
        drawVisualizer b
          (st\<lparr>audioContextRef := Some (newContext b),
              analyserRef := Some (createAnalyser\<lparr>fftSize := 256\<rparr>),
              calls := calls st @ [GetUserMedia, NewAudioContext (newContext b)],
              isVisualizing := True,
              error := None\<rparr>)
      else
        st\<lparr>error := Some ''Microphone access denied or unavailable. Please allow microphone permission.'',
           calls := calls st @ [GetUserMedia, ConsoleError]\<rparr>)"

text \<open>
  \<^verbatim>\<open>if (animationFrameRef.current)\<close> tests a number or \<open>null\<close>: \<open>null\<close> and \<open>0\<close> are
  falsy. \<^verbatim>\<open>if (audioContextRef.current)\<close> tests an object or \<open>null\<close>. Neither ref is
  assigned here.
\<close>

definition stopVisualizer :: "mic_app \<Rightarrow> mic_app" where
  "stopVisualizer st =
     (let st1 = (case animationFrameRef st of
                   None \<Rightarrow> st
                 | Some n \<Rightarrow>
                     if 0 < n then st\<lparr>calls := calls st @ [CancelAnimationFrame n]\<rparr> else st);
          st2 = (case audioContextRef st1 of
                   None \<Rightarrow> st1
                 | Some c \<Rightarrow> st1\<lparr>calls := calls st1 @ [CloseContext c]\<rparr>)
      in st2\<lparr>isVisualizing := False\<rparr>)"

text \<open>The component as mounted, before any click.\<close>

definition mic_initial :: mic_app where
  "mic_initial =
     \<lparr>error = None, audioContextRef = None, analyserRef = None, calls = [],
      isVisualizing = False, animationFrameRef = None\<rparr>"

subsection \<open>The file-upload components\<close>

text \<open>
  \<open>audioRef\<close> is the \<^verbatim>\<open><audio>\<close> element (a handle) once it is rendered, and
  \<open>sourceRef\<close> the element the media source was created from.
\<close>

record file_app = session +
  audioFile :: "string option"
  isPlaying :: bool
  audioRef :: "nat option"
  sourceRef :: "nat option"

record file_obj =
  fname :: string
  ftype :: string

text \<open>
  \<open>picked\<close> is \<^verbatim>\<open>e.target.files[0]\<close>, \<open>None\<close> when the selection is empty;
  \<open>createObjectURL\<close> is \<^verbatim>\<open>URL.createObjectURL\<close>.
\<close>

definition handleFileUpload ::
  "(file_obj \<Rightarrow> string) \<Rightarrow> file_obj option \<Rightarrow> file_app \<Rightarrow> file_app" where
  "handleFileUpload createObjectURL picked st =
     (case picked of
        None \<Rightarrow> st\<lparr>error := Some ''Please upload a valid audio file (mp3, wav, etc.)''\<rparr>
      | Some f \<Rightarrow>
          if prefix ''audio/'' (ftype f)
          then st\<lparr>audioFile := Some (createObjectURL f), error := None, isPlaying := False\<rparr>
          else st\<lparr>error := Some ''Please upload a valid audio file (mp3, wav, etc.)''\<rparr>)"

text \<open>
  \<open>togglePlayback\<close> is the same in both components but for the smoothing constant
  (0.8 and 0.85), the first argument here. \<open>Inl\<close> is the \<^verbatim>\<open>return\<close> of the
  \<^verbatim>\<open>catch\<close> block, which skips \<^verbatim>\<open>setIsPlaying(!isPlaying)\<close>.
\<close>

definition togglePlayback :: "real \<Rightarrow> browser \<Rightarrow> file_app \<Rightarrow> file_app" where
  "togglePlayback smoothing b st =
     (case audioRef st of
        None \<Rightarrow> st
      | Some el \<Rightarrow>
          let st1 = (case audioContextRef st of
                       None \<Rightarrow>
                         st\<lparr>audioContextRef := Some (newContext b),
                            analyserRef :=
                              Some (createAnalyser\<lparr>fftSize := 256,
                                                   smoothingTimeConstant := smoothing\<rparr>),
                            sourceRef := Some el,
                            calls := calls st @ [NewAudioContext (newContext b)]\<rparr>
                     | Some c \<Rightarrow> st);
              st2 = (if isPlaying st then Inr (st1\<lparr>calls := calls st1 @ [Pause]\<rparr>)
                     else if playOk b then Inr (st1\<lparr>calls := calls st1 @ [Play]\<rparr>)
                     else Inl (st1\<lparr>error := Some ''Playback failed. Try clicking Play again.'',
                                  calls := calls st1 @ [Play, ConsoleError]\<rparr>))
          in (case st2 of
                Inl returned \<Rightarrow> returned
              | Inr st3 \<Rightarrow> st3\<lparr>isPlaying := \<not> isPlaying st\<rparr>))"

definition togglePlayback_fixed :: "browser \<Rightarrow> file_app \<Rightarrow> file_app" where
  "togglePlayback_fixed = togglePlayback 0.8"

definition togglePlayback_formula :: "browser \<Rightarrow> file_app \<Rightarrow> file_app" where
  "togglePlayback_formula = togglePlayback 0.85"

definition file_initial :: file_app where
  "file_initial =
     \<lparr>error = None, audioContextRef = None, analyserRef = None, calls = [],
      audioFile = None, isPlaying = False, audioRef = None, sourceRef = None\<rparr>"

subsection \<open>Concrete browsers and sessions\<close>

text \<open>A browser that grants the microphone and starts playback, and one that refuses both.\<close>

definition browser_grants :: browser where
  "browser_grants = \<lparr>micGranted = True, newContext = 1, nextFrame = 1, playOk = True\<rparr>"

definition browser_refuses :: browser where
  "browser_refuses = \<lparr>micGranted = False, newContext = 1, nextFrame = 1, playOk = False\<rparr>"

text \<open>A file-upload session after a valid upload: the \<^verbatim>\<open><audio>\<close> element is rendered.\<close>

definition file_ready :: file_app where
  "file_ready = file_initial\<lparr>audioFile := Some ''blob:track'', audioRef := Some 7\<rparr>"

section \<open>Properties\<close>

subsection \<open>Heights\<close>

lemma height_ge: "0.3 \<le> height i v"
  by (simp add: height_def)

lemma height_zero: "height i 0 = 0.3"
  by (simp add: height_def bassBoost_def)

text \<open>
  C1. Height floor: whatever the bar index and the magnitude, the height is at least 0.3,
  and a silent bin (magnitude 0) gives exactly the floor; the ranges \<open>i < 64\<close> and
  \<open>0 \<le> v \<le> 1\<close> are not needed. So every bar that either variant's loop body builds
  from a sample inside the snapshot is scaled to a height of at least 0.3.
\<close>

theorem height_floor:
  "0.3 \<le> height i v \<and> height i 0 = 0.3 \<and>
   (case bar_fixed dataArray i of None \<Rightarrow> True | Some bar \<Rightarrow> 0.3 \<le> fst (snd (scale bar))) \<and>
   (case bar_formula zFormula dataArray now i of
      None \<Rightarrow> True | Some bar \<Rightarrow> 0.3 \<le> fst (snd (scale bar)))"
proof (intro conjI)
  show "0.3 \<le> height i v"
    by (rule height_ge)
  show "height i 0 = 0.3"
    by (rule height_zero)
  show "case bar_fixed dataArray i of None \<Rightarrow> True | Some bar \<Rightarrow> 0.3 \<le> fst (snd (scale bar))"
    by (simp add: bar_fixed_def height_ge [simplified] split: option.splits)
  show "case bar_formula zFormula dataArray now i of
          None \<Rightarrow> True | Some bar \<Rightarrow> 0.3 \<le> fst (snd (scale bar))"
    by (simp add: bar_formula_def height_ge [simplified] split: option.splits)
qed

text \<open>
  C2. Z-offset formula table: for each of the five selectable names the depth offset is
  the listed expression of the bar index \<open>i\<close>, the position \<open>x\<close>, the time \<open>t\<close> and the
  magnitude \<open>v\<close>; for \<open>none\<close> it is 0 whatever the arguments.
\<close>

theorem zOffset_table:
  "zOffset ''none'' i x t v = 0 \<and>
   zOffset ''sine'' i x t v = sin (x * 0.2 + t) * (v * 5) \<and>
   zOffset ''pulse'' i x t v = sin (t * 3) * (v * 8) \<and>
   zOffset ''wave'' i x t v = sin (real i * 0.2 + t * 2) * (v * 6 + 2) \<and>
   zOffset ''spiral'' i x t v = cos (x * 0.3 + t) * (v * 6) + sin t * 2"
  by (simp add: zOffset_def)

text \<open>
  C3. Pulse lockstep: under \<open>pulse\<close> two bars with any indices and positions get the same
  depth offset when they have the same clock reading \<open>t\<close> and the same magnitude \<open>v\<close>.
  In the loop body the depth of a bar is a function of the clock reading and of the bar's
  sample only.
\<close>

theorem pulse_lockstep:
  "zOffset ''pulse'' i1 x1 t v = zOffset ''pulse'' i2 x2 t v \<and>
   map_option (\<lambda>bar. snd (snd (position bar))) (bar_formula ''pulse'' dataArray now i) =
     map_option (\<lambda>val. sin (now * 0.001 * 3) * (val * 8)) (sample_formula dataArray i)"
  by (simp add: zOffset_def bar_formula_def split: option.splits)

text \<open>
  C4. Bass-boost monotonicity: for a positive magnitude, a bar of the boosted region
  (\<open>i1 < 16\<close>) is at least as high as a bar outside it (\<open>16 \<le> i2\<close>) with that magnitude.
\<close>

theorem bass_boost_monotone:
  assumes "0 < v" and "i1 < 16" and "16 \<le> i2"
  shows "height i2 v \<le> height i1 v"
  using assms by (simp add: height_def bassBoost_def)

theorem bass_boost_monotone_witness:
  "(0::real) < 0.5 \<and> (0::nat) < 16 \<and> (16::nat) \<le> 20 \<and>
   height 20 0.5 \<le> height 0 0.5 \<and> height 20 0.5 = 9 \<and> height 0 0.5 = 24"
  using bass_boost_monotone [of "0.5" 0 20] by (simp add: height_def bassBoost_def)

subsection \<open>Sampling\<close>

lemma freqIndex_div: "freqIndex len i = int (i * len div barCount)"
proof -
  have "real i * (real len / real barCount) = real (i * len) / real barCount"
    by simp
  then show ?thesis
    unfolding freqIndex_def by (simp only: floor_divide_of_nat_eq)
qed

lemma freqIndex_fixed_eq: "freqIndex_fixed i = int (2 * i)"
proof -
  have "real i * 2 = of_int (int (2 * i))" by simp
  then show ?thesis unfolding freqIndex_fixed_def by (simp only: floor_of_int)
qed

text \<open>
  C5. Sampling index: the formula variant reads the snapshot at
  \<open>\<lfloor>i \<sdot> N / B\<rfloor>\<close>, with \<open>N\<close> the snapshot's length and \<open>B\<close> the bar count 64, which is
  \<open>i * N div 64\<close>; the fixed-stride variant reads at \<open>\<lfloor>i \<sdot> 2\<rfloor>\<close>, which is \<open>2 * i\<close>.
  A read past the end of the snapshot gives no number.
\<close>

theorem sampling_index:
  "freqIndex (length dataArray) i = \<lfloor>real i * real (length dataArray) / real barCount\<rfloor> \<and>
   freqIndex_fixed i = \<lfloor>real i * 2\<rfloor> \<and>
   sample_formula dataArray i =
     (if i * length dataArray div 64 < length dataArray
      then Some (real (unat (dataArray ! (i * length dataArray div 64))) / 255)
      else None) \<and>
   sample_fixed dataArray i =
     (if 2 * i < length dataArray then Some (real (unat (dataArray ! (2 * i))) / 255) else None)"
proof -
  have "freqIndex (length dataArray) i = \<lfloor>real i * real (length dataArray) / real barCount\<rfloor>"
    by (simp add: freqIndex_def)
  moreover have "freqIndex_fixed i = \<lfloor>real i * 2\<rfloor>"
    by (simp add: freqIndex_fixed_def)
  moreover have "sample_formula dataArray i =
     (if i * length dataArray div 64 < length dataArray
      then Some (real (unat (dataArray ! (i * length dataArray div 64))) / 255)
      else None)"
    by (simp add: sample_formula_def readSample_def freqIndex_div barCount_def)
  moreover have "sample_fixed dataArray i =
     (if 2 * i < length dataArray then Some (real (unat (dataArray ! (2 * i))) / 255) else None)"
    unfolding sample_fixed_def readSample_def freqIndex_fixed_eq
    by (simp only: nat_int of_nat_0_le_iff simp_thms if_True)
  ultimately show ?thesis by blast
qed

subsection \<open>Colour\<close>

lemma sweep_strict: "(a::real) < b \<Longrightarrow> a * 60 + 180 < b * 60 + 180"
  by simp

lemma sweep_below: "(a::real) < 1 \<Longrightarrow> a * 60 + 180 < 240"
  by simp

text \<open>
  C6. Hue of the 2D variant: \<open>hue = i / N * 60 + 180\<close>. For a snapshot of positive length
  \<open>N\<close> it is strictly increasing in the bar index, and for every index below \<open>N\<close> it lies
  in \<open>[180, 240)\<close>.
\<close>

theorem hue_sweep:
  assumes "0 < n"
  shows "hue n i = real i / real n * 60 + 180 \<and>
         (i1 < i2 \<longrightarrow> hue n i1 < hue n i2) \<and>
         (i < n \<longrightarrow> 180 \<le> hue n i \<and> hue n i < 240)"
proof (intro conjI impI)
  show "hue n i = real i / real n * 60 + 180"
    by (simp add: hue_def)
next
  assume "i1 < i2"
  with assms have "real i1 / real n < real i2 / real n"
    by (simp add: divide_strict_right_mono)
  then show "hue n i1 < hue n i2"
    unfolding hue_def by (rule sweep_strict)
next
  show "180 \<le> hue n i"
    by (simp add: hue_def)
next
  assume "i < n"
  with assms have "real i / real n < 1"
    by simp
  then show "hue n i < 240"
    unfolding hue_def by (rule sweep_below)
qed

theorem hue_sweep_witness:
  "(0::nat) < 128 \<and> (3::nat) < 5 \<and> hue 128 3 < hue 128 5 \<and> (127::nat) < 128 \<and>
   180 \<le> hue 128 127 \<and> hue 128 127 < 240 \<and> hue 128 0 = 180 \<and> hue 128 64 = 210"
  using hue_sweep [of 128 127 3 5] by (simp add: hue_def)

text \<open>
  C7. End-to-end scenario: on a snapshot that starts 255, 128, 0, bar 0 reads the
  magnitude 1 in both variants, its boosted value is 4 and its height 48, so the bar is
  placed at \<open>x = -28.8\<close> with height 48; a bar 20 with magnitude 0.5 has the boosted
  value 0.75 and the height 9.
\<close>

theorem end_to_end_scenario:
  "sample_fixed (255 # 128 # 0 # rest) 0 = Some 1 \<and>
   sample_formula (255 # 128 # 0 # rest) 0 = Some 1 \<and>
   bassBoost 0 1 = 4 \<and> height 0 1 = max 0.3 48 \<and> height 0 1 = 48 \<and>
   bar_fixed (255 # 128 # 0 # rest) 0 =
     Some \<lparr>position = (xPos 0, 24, 0), scale = (0.8, 48, 0.8)\<rparr> \<and>
   bar_formula ''none'' (255 # 128 # 0 # rest) now 0 =
     Some \<lparr>position = (xPos 0, 24, 0), scale = (0.8, 48, 0.8)\<rparr> \<and>
   xPos 0 = - 28.8 \<and>
   bassBoost 20 0.5 = 0.75 \<and> height 20 0.5 = max 0.3 9 \<and> height 20 0.5 = 9"
  by (simp add: bar_fixed_def bar_formula_def zOffset_def sample_fixed_def sample_formula_def
      readSample_def freqIndex_fixed_eq freqIndex_div height_def bassBoost_def xPos_def barCount_def)


subsection \<open>Stopping the microphone session\<close>

lemma stop_keeps_refs:
  "audioContextRef (stopVisualizer st) = audioContextRef st \<and>
   animationFrameRef (stopVisualizer st) = animationFrameRef st \<and>
   analyserRef (stopVisualizer st) = analyserRef st \<and>
   error (stopVisualizer st) = error st \<and>
   \<not> isVisualizing (stopVisualizer st)"
  by (simp add: stopVisualizer_def Let_def split: option.splits)

lemma stop_again_closes_again:
  "audioContextRef st = Some c \<Longrightarrow>
   \<exists>pre. calls (stopVisualizer (stopVisualizer st)) =
           calls (stopVisualizer st) @ pre @ [CloseContext c]"
  by (simp add: stopVisualizer_def Let_def split: option.splits)

text \<open>
  C8. Stop idempotence, on a session started with the microphone granted: the first stop
  cancels frame 1 and closes context 1; a second stop leaves the flags and refs as they
  are, but cancels frame 1 and closes context 1 once more, since neither ref was cleared.
\<close>

theorem stop_twice_closes_twice:
  "calls (stopVisualizer (startVisualizer browser_grants mic_initial)) =
     [GetUserMedia, NewAudioContext 1, RequestAnimationFrame 1,
      CancelAnimationFrame 1, CloseContext 1] \<and>
   calls (stopVisualizer (stopVisualizer (startVisualizer browser_grants mic_initial))) =
     [GetUserMedia, NewAudioContext 1, RequestAnimationFrame 1,
      CancelAnimationFrame 1, CloseContext 1, CancelAnimationFrame 1, CloseContext 1]"
  by (simp add: stopVisualizer_def startVisualizer_def drawVisualizer_def mic_initial_def
      browser_grants_def)


subsection \<open>Failures\<close>

lemma upload_rejected:
  assumes "picked = None \<or> (\<exists>f. picked = Some f \<and> \<not> prefix ''audio/'' (ftype f))"
  shows "handleFileUpload mk picked st =
           st\<lparr>error := Some ''Please upload a valid audio file (mp3, wav, etc.)''\<rparr>"
  using assms by (auto simp: handleFileUpload_def)

lemma mic_denied:
  assumes "\<not> micGranted b"
  shows "startVisualizer b m =
           m\<lparr>error := Some ''Microphone access denied or unavailable. Please allow microphone permission.'',
             calls := calls m @ [GetUserMedia, ConsoleError]\<rparr>"
  using assms by (simp add: startVisualizer_def)

lemma play_rejected:
  assumes "audioRef st = Some el" and "\<not> isPlaying st" and "\<not> playOk b"
  shows "error (togglePlayback s b st) = Some ''Playback failed. Try clicking Play again.'' \<and>
         \<not> isPlaying (togglePlayback s b st) \<and>
         audioFile (togglePlayback s b st) = audioFile st \<and>
         calls (togglePlayback s b st) =
           calls st @ (case audioContextRef st of None \<Rightarrow> [NewAudioContext (newContext b)] | Some c \<Rightarrow> [])
             @ [Play, ConsoleError]"
  using assms by (simp add: togglePlayback_def Let_def split: option.splits)

text \<open>
  C9. Error handling. (a) A missing selection, or a file whose type does not start with
  \<open>audio/\<close>, only sets the message: the selected audio file and the playing flag are as
  before. (b) When the microphone is refused, an idle microphone session gets the message
  and stays idle, after one \<open>getUserMedia\<close> call; when playback does not start, an idle
  file session gets the message and stays idle, after one \<open>play\<close> call.
\<close>

theorem error_handling:
  "(picked = None \<or> (\<exists>f. picked = Some f \<and> \<not> prefix ''audio/'' (ftype f)) \<longrightarrow>
      handleFileUpload mk picked st =
        st\<lparr>error := Some ''Please upload a valid audio file (mp3, wav, etc.)''\<rparr> \<and>
      audioFile (handleFileUpload mk picked st) = audioFile st \<and>
      isPlaying (handleFileUpload mk picked st) = isPlaying st) \<and>
   (\<not> micGranted b \<and> \<not> isVisualizing m \<longrightarrow>
      startVisualizer b m =
        m\<lparr>error := Some ''Microphone access denied or unavailable. Please allow microphone permission.'',
          calls := calls m @ [GetUserMedia, ConsoleError]\<rparr> \<and>
      \<not> isVisualizing (startVisualizer b m)) \<and>
   (audioRef st = Some el \<and> \<not> isPlaying st \<and> \<not> playOk b \<longrightarrow>
      error (togglePlayback s b st) = Some ''Playback failed. Try clicking Play again.'' \<and>
      \<not> isPlaying (togglePlayback s b st) \<and>
      audioFile (togglePlayback s b st) = audioFile st \<and>
      calls (togglePlayback s b st) =
        calls st @ (case audioContextRef st of None \<Rightarrow> [NewAudioContext (newContext b)] | Some c \<Rightarrow> [])
          @ [Play, ConsoleError])"
proof (intro conjI impI)
  assume a: "picked = None \<or> (\<exists>f. picked = Some f \<and> \<not> prefix ''audio/'' (ftype f))"
  show r: "handleFileUpload mk picked st =
        st\<lparr>error := Some ''Please upload a valid audio file (mp3, wav, etc.)''\<rparr>"
    using a by (rule upload_rejected)
  show "audioFile (handleFileUpload mk picked st) = audioFile st"
    by (simp add: r)
  show "isPlaying (handleFileUpload mk picked st) = isPlaying st"
    by (simp add: r)
next
  assume a: "\<not> micGranted b \<and> \<not> isVisualizing m"
  then show r: "startVisualizer b m =
        m\<lparr>error := Some ''Microphone access denied or unavailable. Please allow microphone permission.'',
          calls := calls m @ [GetUserMedia, ConsoleError]\<rparr>"
    by (simp add: mic_denied)
  show "\<not> isVisualizing (startVisualizer b m)"
    using a by (simp add: r)
next
  assume a: "audioRef st = Some el \<and> \<not> isPlaying st \<and> \<not> playOk b"
  then have "audioRef st = Some el" and "\<not> isPlaying st" and "\<not> playOk b"
    by simp_all
  note p = play_rejected [OF this, of s]
  from p show "error (togglePlayback s b st) = Some ''Playback failed. Try clicking Play again.''" by blast
  from p show "\<not> isPlaying (togglePlayback s b st)" by blast
  from p show "audioFile (togglePlayback s b st) = audioFile st" by blast
  from p show "calls (togglePlayback s b st) =
           calls st @ (case audioContextRef st of None \<Rightarrow> [NewAudioContext (newContext b)] | Some c \<Rightarrow> [])
             @ [Play, ConsoleError]" by blast
qed

theorem error_handling_witness:
  "\<not> prefix ''audio/'' (ftype \<lparr>fname = ''notes.txt'', ftype = ''text/plain''\<rparr>) \<and>
   audioFile (handleFileUpload (\<lambda>f. ''blob:'' @ fname f)
       (Some \<lparr>fname = ''notes.txt'', ftype = ''text/plain''\<rparr>) file_ready) = Some ''blob:track'' \<and>
   \<not> isPlaying (handleFileUpload (\<lambda>f. ''blob:'' @ fname f)
       (Some \<lparr>fname = ''notes.txt'', ftype = ''text/plain''\<rparr>) file_ready) \<and>
   error (handleFileUpload (\<lambda>f. ''blob:'' @ fname f)
       (Some \<lparr>fname = ''notes.txt'', ftype = ''text/plain''\<rparr>) file_ready) =
     Some ''Please upload a valid audio file (mp3, wav, etc.)'' \<and>
   handleFileUpload (\<lambda>f. ''blob:'' @ fname f) None file_ready =
     file_ready\<lparr>error := Some ''Please upload a valid audio file (mp3, wav, etc.)''\<rparr> \<and>
   \<not> micGranted browser_refuses \<and> \<not> isVisualizing mic_initial \<and>
   \<not> isVisualizing (startVisualizer browser_refuses mic_initial) \<and>
   calls (startVisualizer browser_refuses mic_initial) = [GetUserMedia, ConsoleError] \<and>
   audioRef file_ready = Some 7 \<and> \<not> isPlaying file_ready \<and> \<not> playOk browser_refuses \<and>
   \<not> isPlaying (togglePlayback 0.8 browser_refuses file_ready) \<and>
   calls (togglePlayback 0.8 browser_refuses file_ready) = [NewAudioContext 1, Play, ConsoleError]"
  using error_handling [of "Some \<lparr>fname = ''notes.txt'', ftype = ''text/plain''\<rparr>"
      "\<lambda>f. ''blob:'' @ fname f" file_ready browser_refuses mic_initial 7 "0.8"]
    error_handling [of None "\<lambda>f. ''blob:'' @ fname f" file_ready]
  by (simp add: file_ready_def file_initial_def browser_refuses_def mic_initial_def)


subsection \<open>The analyser the file-upload components configure\<close>

lemma first_play_analyser:
  assumes "audioRef st = Some el" and "audioContextRef st = None"
  shows "analyserRef (togglePlayback s b st) = Some \<lparr>fftSize = 256, smoothingTimeConstant = s\<rparr>"
  using assms
  by (simp add: togglePlayback_def Let_def createAnalyser_def split: sum.splits)

lemma same_index_at_128: "freqIndex_fixed i = freqIndex 128 i"
  by (simp add: freqIndex_fixed_eq freqIndex_div barCount_def)

lemma same_sample_at_128:
  "length dataArray = 128 \<Longrightarrow> sample_fixed dataArray i = sample_formula dataArray i"
  by (simp add: sample_fixed_def sample_formula_def same_index_at_128)

text \<open>
  C10. Sampling equivalence at the configured size: the first \<open>togglePlayback\<close> of either
  file-upload component sets \<open>fftSize\<close> to 256, so the snapshot has 128 bins, and at that
  length the fixed-stride index \<open>\<lfloor>i \<sdot> 2\<rfloor>\<close> is the proportional index
  \<open>\<lfloor>i \<sdot> (N / 64)\<rfloor>\<close> for every bar: both variants read the same bin.
\<close>

theorem sampling_equivalence:
  assumes "audioRef st = Some el" and "audioContextRef st = None"
  shows "\<exists>a1 a2.
           analyserRef (togglePlayback_fixed b st) = Some a1 \<and>
           analyserRef (togglePlayback_formula b st) = Some a2 \<and>
           fftSize a1 = 256 \<and> fftSize a2 = 256 \<and>
           frequencyBinCount a1 = 128 \<and> frequencyBinCount a2 = 128 \<and>
           freqIndex_fixed i = freqIndex (frequencyBinCount a2) i \<and>
           (length dataArray = frequencyBinCount a1 \<longrightarrow>
              sample_fixed dataArray i = sample_formula dataArray i)"
proof (intro exI conjI impI)
  show "analyserRef (togglePlayback_fixed b st) = Some \<lparr>fftSize = 256, smoothingTimeConstant = 0.8\<rparr>"
    unfolding togglePlayback_fixed_def using assms by (rule first_play_analyser)
  show "analyserRef (togglePlayback_formula b st) = Some \<lparr>fftSize = 256, smoothingTimeConstant = 0.85\<rparr>"
    unfolding togglePlayback_formula_def using assms by (rule first_play_analyser)
  show "fftSize \<lparr>fftSize = 256, smoothingTimeConstant = 0.8\<rparr> = 256" by simp
  show "fftSize \<lparr>fftSize = 256, smoothingTimeConstant = 0.85\<rparr> = 256" by simp
  show "frequencyBinCount \<lparr>fftSize = 256, smoothingTimeConstant = 0.8\<rparr> = 128"
    by (simp add: frequencyBinCount_def)
  show n: "frequencyBinCount \<lparr>fftSize = 256, smoothingTimeConstant = 0.85\<rparr> = 128"
    by (simp add: frequencyBinCount_def)
  show "freqIndex_fixed i = freqIndex (frequencyBinCount \<lparr>fftSize = 256, smoothingTimeConstant = 0.85\<rparr>) i"
    by (simp only: n same_index_at_128)
  assume "length dataArray = frequencyBinCount \<lparr>fftSize = 256, smoothingTimeConstant = 0.8\<rparr>"
  then have "length dataArray = 128"
    by (simp add: frequencyBinCount_def)
  then show "sample_fixed dataArray i = sample_formula dataArray i"
    by (rule same_sample_at_128)
qed

theorem sampling_equivalence_witness:
  "audioRef file_ready = Some 7 \<and> audioContextRef file_ready = None \<and>
   analyserRef (togglePlayback_fixed browser_grants file_ready) =
     Some \<lparr>fftSize = 256, smoothingTimeConstant = 0.8\<rparr> \<and>
   analyserRef (togglePlayback_formula browser_grants file_ready) =
     Some \<lparr>fftSize = 256, smoothingTimeConstant = 0.85\<rparr> \<and>
   freqIndex_fixed 20 = 40 \<and> freqIndex 128 20 = 40 \<and>
   sample_fixed (replicate 128 77) 20 = sample_formula (replicate 128 77) 20"
  using sampling_equivalence [of file_ready 7 browser_grants 20 "replicate 128 77"]
  by (simp add: file_ready_def file_initial_def browser_grants_def togglePlayback_fixed_def
      togglePlayback_formula_def togglePlayback_def createAnalyser_def frequencyBinCount_def
      freqIndex_fixed_eq freqIndex_div barCount_def sample_fixed_def sample_formula_def)


end
